theory Spec2Isabelle
  imports Complex_Main
begin

section \<open>Values exchanged between the wrappers and the wrapped environment\<close>

text \<open>
  The wrappers of \<^verbatim>\<open>env_wrappers.py\<close> sit between a caller and an inner environment
  with the gymnasium contract: \<^verbatim>\<open>step(action)\<close> returns the five-tuple
  \<^verbatim>\<open>(obs, reward, terminated, truncated, info)\<close>, \<^verbatim>\<open>reset()\<close> returns
  \<^verbatim>\<open>(obs, info)\<close>.  Python floats are idealised as \<^typ>\<open>real\<close>, Python ints
  as \<^typ>\<open>int\<close>, numeric vectors as lists of reals.  An exception is a value of
  \<open>error\<close> on the left of a sum; the state of a wrapper that raised is not
  returned.
\<close>

datatype error = IndexError | ZeroDivisionError | ValueError

text \<open>The values an \<^verbatim>\<open>info\<close> dictionary may hold, with Python's truth test.\<close>

datatype pyval = PyNone | PyBool bool | PyInt int | PyFloat real | PyStr string

fun truthy :: "pyval \<Rightarrow> bool" where
  "truthy PyNone = False"
| "truthy (PyBool b) = b"
| "truthy (PyInt i) = (i \<noteq> 0)"
| "truthy (PyFloat x) = (x \<noteq> 0)"
| "truthy (PyStr s) = (s \<noteq> [])"

record transition =
  observation :: "real list"
  reward :: real
  terminated :: bool
  truncated :: bool
  info :: "string \<rightharpoonup> pyval"

text \<open>
  The inner environment is a pair of functions on its own state \<open>'e\<close>; either may
  raise.
\<close>

type_synonym 'e env_step = "'e \<Rightarrow> real list \<Rightarrow> error + transition \<times> 'e"
type_synonym 'e env_reset = "'e \<Rightarrow> error + (real list \<times> (string \<rightharpoonup> pyval)) \<times> 'e"

text \<open>\<^verbatim>\<open>obs[i]\<close> for a constant index \<open>i \<ge> 0\<close>: out of range raises.\<close>

definition getitem :: "real list \<Rightarrow> nat \<Rightarrow> error + real" where
  "getitem xs i = (if i < length xs then Inr (xs ! i) else Inl IndexError)"

text \<open>
  \<^verbatim>\<open>a / b\<close> on Python floats: a zero divisor raises.  (On numpy scalars the same
  division gives an infinity or a NaN with a warning, values the reals do not have;
  every statement below about a step that divides keeps the divisor away from 0.)
\<close>

definition truediv :: "real \<Rightarrow> real \<Rightarrow> error + real" where
  "truediv a b = (if b = 0 then Inl ZeroDivisionError else Inr (a / b))"

section \<open>The wrapper base class\<close>

text \<open>
  Every class of the file derives from \<^verbatim>\<open>gym.Wrapper\<close>, which holds the inner
  environment in \<^verbatim>\<open>self.env\<close>.  A class that does not define \<^verbatim>\<open>reset\<close>
  inherits the base one, which only delegates: \<^verbatim>\<open>return self.env.reset(**kwargs)\<close>.
\<close>

record 'e Wrapper =
  env :: 'e

definition Wrapper_reset ::
  "'e env_reset \<Rightarrow> ('e, 'z) Wrapper_scheme \<Rightarrow>
     error + (real list \<times> (string \<rightharpoonup> pyval)) \<times> ('e, 'z) Wrapper_scheme" where
  "Wrapper_reset env_reset self =
     (case env_reset (env self) of
        Inl err \<Rightarrow> Inl err
      | Inr (oi, e') \<Rightarrow> Inr (oi, self\<lparr>env := e'\<rparr>))"

section \<open>TargetVelocityWrapper\<close>

record 'e TargetVelocityWrapper = "'e Wrapper" +
  target_velocity :: real
  tolerance :: real

definition TargetVelocityWrapper_init ::
  "'e \<Rightarrow> real \<Rightarrow> real \<Rightarrow> error + 'e TargetVelocityWrapper" where
  "TargetVelocityWrapper_init e tv tol =
     Inr \<lparr>env = e, target_velocity = tv, tolerance = tol\<rparr>"

definition TargetVelocityWrapper_step ::
  "'e env_step \<Rightarrow> 'e TargetVelocityWrapper \<Rightarrow> real list \<Rightarrow>
     error + transition \<times> 'e TargetVelocityWrapper" where
  "TargetVelocityWrapper_step env_step self action =
     (case env_step (env self) action of
        Inl err \<Rightarrow> Inl err
      | Inr (t, e') \<Rightarrow>
          (case getitem (observation t) 8 of
             Inl err \<Rightarrow> Inl err
           | Inr velocity \<Rightarrow>
               (let velocity_error = \<bar>target_velocity self - velocity\<bar> in
                case truediv velocity_error (tolerance self) of
                  Inl err \<Rightarrow> Inl err
                | Inr q \<Rightarrow>
                    (let velocity_reward = max 0 (1 - q) in
                     Inr (t\<lparr>reward := velocity_reward\<rparr>, self\<lparr>env := e'\<rparr>)))))"

section \<open>JumpRewardWrapper\<close>

record 'e JumpRewardWrapper = "'e Wrapper" +
  jump_target_height :: real

definition JumpRewardWrapper_init :: "'e \<Rightarrow> real \<Rightarrow> error + 'e JumpRewardWrapper" where
  "JumpRewardWrapper_init e h = Inr \<lparr>env = e, jump_target_height = h\<rparr>"

definition JumpRewardWrapper_step ::
  "'e env_step \<Rightarrow> 'e JumpRewardWrapper \<Rightarrow> real list \<Rightarrow>
     error + transition \<times> 'e JumpRewardWrapper" where
  "JumpRewardWrapper_step env_step self action =
     (case env_step (env self) action of
        Inl err \<Rightarrow> Inl err
      | Inr (t, e') \<Rightarrow>
          (case getitem (observation t) 0 of
             Inl err \<Rightarrow> Inl err
           | Inr torso_height \<Rightarrow>
               (case truediv torso_height (jump_target_height self) of
                  Inl err \<Rightarrow> Inl err
                | Inr height_reward \<Rightarrow>
                    Inr (t\<lparr>reward := height_reward\<rparr>, self\<lparr>env := e'\<rparr>))))"

section \<open>DelayedRewardWrapper\<close>

text \<open>
  \<^verbatim>\<open>deque(maxlen=n).append(x)\<close> puts \<open>x\<close> at the right end and, when the queue has
  grown beyond \<open>n\<close>, drops the leftmost entry.  \<^verbatim>\<open>deque(maxlen=n)\<close> itself raises
  \<^verbatim>\<open>ValueError\<close> for a negative \<open>n\<close>; \<^verbatim>\<open>popleft\<close> on an empty queue raises
  \<^verbatim>\<open>IndexError\<close>.
\<close>

definition deque_append :: "int \<Rightarrow> real list \<Rightarrow> real \<Rightarrow> real list" where
  "deque_append maxlen q x =
     (let q' = q @ [x] in if maxlen < int (length q') then tl q' else q')"

record 'e DelayedRewardWrapper = "'e Wrapper" +
  delay_steps :: int
  reward_buffer :: "real list"

definition DelayedRewardWrapper_init :: "'e \<Rightarrow> int \<Rightarrow> error + 'e DelayedRewardWrapper" where
  "DelayedRewardWrapper_init e d =
     (if d < 0 then Inl ValueError
      else Inr \<lparr>env = e, delay_steps = d, reward_buffer = []\<rparr>)"

definition DelayedRewardWrapper_reward ::
  "'e DelayedRewardWrapper \<Rightarrow> real \<Rightarrow> error + real \<times> 'e DelayedRewardWrapper" where
  "DelayedRewardWrapper_reward self r =
     (let buf = deque_append (delay_steps self) (reward_buffer self) r in
      if int (length buf) < delay_steps self then Inr (0, self\<lparr>reward_buffer := buf\<rparr>)
      else (case buf of
              [] \<Rightarrow> Inl IndexError
            | oldest # rest \<Rightarrow> Inr (oldest, self\<lparr>reward_buffer := rest\<rparr>)))"

text \<open>
  The class defines neither \<^verbatim>\<open>step\<close> nor \<^verbatim>\<open>reset\<close>.  Its \<^verbatim>\<open>step\<close> is that of
  \<^verbatim>\<open>gym.RewardWrapper\<close>, which passes the inner reward through \<^verbatim>\<open>self.reward\<close>;
  its \<^verbatim>\<open>reset\<close> is \<open>Wrapper_reset\<close>.
\<close>

definition DelayedRewardWrapper_step ::
  "'e env_step \<Rightarrow> 'e DelayedRewardWrapper \<Rightarrow> real list \<Rightarrow>
     error + transition \<times> 'e DelayedRewardWrapper" where
  "DelayedRewardWrapper_step env_step self action =
     (case env_step (env self) action of
        Inl err \<Rightarrow> Inl err
      | Inr (t, e') \<Rightarrow>
          (case DelayedRewardWrapper_reward (self\<lparr>env := e'\<rparr>) (reward t) of
             Inl err \<Rightarrow> Inl err
           | Inr (r, self') \<Rightarrow> Inr (t\<lparr>reward := r\<rparr>, self')))"

text \<open>
  The inner rewards of successive steps, passed one after the other through
  \<^verbatim>\<open>reward\<close>; the result holds the rewards emitted, in order, and the final stage.
\<close>

fun feed_rewards ::
  "'e DelayedRewardWrapper \<Rightarrow> real list \<Rightarrow> error + real list \<times> 'e DelayedRewardWrapper" where
  "feed_rewards self [] = Inr ([], self)"
| "feed_rewards self (r # rs) =
     (case DelayedRewardWrapper_reward self r of
        Inl err \<Rightarrow> Inl err
      | Inr (x, self') \<Rightarrow>
          (case feed_rewards self' rs of
             Inl err \<Rightarrow> Inl err
           | Inr (xs, self'') \<Rightarrow> Inr (x # xs, self'')))"

section \<open>MultiTimescaleWrapper\<close>

record 'e MultiTimescaleWrapper = "'e Wrapper" +
  slow_factor :: real
  fast_factor :: real
  slow_scale :: real
  fast_scale :: real
  max_slow_factor :: real
  episode_count :: int

definition MultiTimescaleWrapper_init ::
  "'e \<Rightarrow> real \<Rightarrow> real \<Rightarrow> real \<Rightarrow> error + 'e MultiTimescaleWrapper" where
  "MultiTimescaleWrapper_init e sscale fscale smax =
     Inr \<lparr>env = e, slow_factor = 1, fast_factor = 1, slow_scale = sscale,
          fast_scale = fscale, max_slow_factor = smax, episode_count = 0\<rparr>"

text \<open>
  \<open>fast_change\<close> is the array drawn by \<^verbatim>\<open>np.random.uniform\<close>, one entry for each
  component of the action.
\<close>

definition MultiTimescaleWrapper_step ::
  "'e env_step \<Rightarrow> real list \<Rightarrow> 'e MultiTimescaleWrapper \<Rightarrow> real list \<Rightarrow>
     error + transition \<times> 'e MultiTimescaleWrapper" where
  "MultiTimescaleWrapper_step env_step fast_change self action =
     (let modified_action = map2 (\<lambda>a u. a * (1 + u)) action fast_change in
      case env_step (env self) modified_action of
        Inl err \<Rightarrow> Inl err
      | Inr (t, e') \<Rightarrow>
          Inr (t\<lparr>reward := reward t * slow_factor self\<rparr>, self\<lparr>env := e'\<rparr>))"

definition MultiTimescaleWrapper_reset ::
  "'e env_reset \<Rightarrow> 'e MultiTimescaleWrapper \<Rightarrow>
     error + (real list \<times> (string \<rightharpoonup> pyval)) \<times> 'e MultiTimescaleWrapper" where
  "MultiTimescaleWrapper_reset env_reset self =
     (let self1 = (if slow_factor self < max_slow_factor self
                   then self\<lparr>slow_factor := slow_factor self + slow_scale self\<rparr>
                   else self);
          self2 = self1\<lparr>fast_factor := 1\<rparr>;
          self3 = self2\<lparr>episode_count := episode_count self2 + 1\<rparr>
      in case env_reset (env self3) of
           Inl err \<Rightarrow> Inl err
         | Inr (oi, e') \<Rightarrow> Inr (oi, self3\<lparr>env := e'\<rparr>))"

definition MultiTimescaleWrapper_get_factors :: "'e MultiTimescaleWrapper \<Rightarrow> real \<times> real" where
  "MultiTimescaleWrapper_get_factors self = (slow_factor self, fast_factor self)"

text \<open>\<open>n\<close> calls of \<^verbatim>\<open>reset\<close> in a row.\<close>

fun resets ::
  "'e env_reset \<Rightarrow> nat \<Rightarrow> 'e MultiTimescaleWrapper \<Rightarrow> error + 'e MultiTimescaleWrapper" where
  "resets env_reset 0 self = Inr self"
| "resets env_reset (Suc n) self =
     (case MultiTimescaleWrapper_reset env_reset self of
        Inl err \<Rightarrow> Inl err
      | Inr (oi, self') \<Rightarrow> resets env_reset n self')"

section \<open>MultiStepTaskWrapper\<close>

text \<open>
  The goal predicate is any callable of the observation and the info dictionary; the
  \<^verbatim>\<open>if\<close> of \<^verbatim>\<open>step\<close> reads its result through Python's truth test, so it is kept
  here as a function to \<^typ>\<open>bool\<close>.
\<close>

record 'e MultiStepTaskWrapper = "'e Wrapper" +
  steps_to_goal :: int
  current_steps :: int
  penalize_non_goal :: bool
  goal_reached_condition :: "real list \<Rightarrow> (string \<rightharpoonup> pyval) \<Rightarrow> bool"

text \<open>\<^verbatim>\<open>info.get("is_goal_reached", False)\<close>, read as a truth value.\<close>

definition default_goal_reached_condition :: "real list \<Rightarrow> (string \<rightharpoonup> pyval) \<Rightarrow> bool" where
  "default_goal_reached_condition obs d =
     truthy (case d ''is_goal_reached'' of None \<Rightarrow> PyBool False | Some v \<Rightarrow> v)"

definition MultiStepTaskWrapper_init ::
  "'e \<Rightarrow> int \<Rightarrow> bool \<Rightarrow> (real list \<Rightarrow> (string \<rightharpoonup> pyval) \<Rightarrow> bool) option \<Rightarrow>
     error + 'e MultiStepTaskWrapper" where
  "MultiStepTaskWrapper_init e reward_goal_steps penalize cond =
     Inr \<lparr>env = e, steps_to_goal = reward_goal_steps, current_steps = 0,
          penalize_non_goal = penalize,
          goal_reached_condition =
            (case cond of None \<Rightarrow> default_goal_reached_condition | Some f \<Rightarrow> f)\<rparr>"

definition MultiStepTaskWrapper_step ::
  "'e env_step \<Rightarrow> 'e MultiStepTaskWrapper \<Rightarrow> real list \<Rightarrow>
     error + transition \<times> 'e MultiStepTaskWrapper" where
  "MultiStepTaskWrapper_step env_step self action =
     (case env_step (env self) action of
        Inl err \<Rightarrow> Inl err
      | Inr (t, e') \<Rightarrow>
          (let self1 = self\<lparr>env := e', current_steps := current_steps self + 1\<rparr> in
           if goal_reached_condition self1 (observation t) (info t)
           then Inr (t\<lparr>reward := 1\<rparr>, self1\<lparr>current_steps := 0\<rparr>)
           else if steps_to_goal self1 \<le> current_steps self1
           then Inr (if penalize_non_goal self1 then t\<lparr>reward := - 0.5\<rparr> else t,
                     self1\<lparr>current_steps := 0\<rparr>)
           else Inr (t\<lparr>reward := 0\<rparr>, self1)))"

definition MultiStepTaskWrapper_reset ::
  "'e env_reset \<Rightarrow> 'e MultiStepTaskWrapper \<Rightarrow>
     error + (real list \<times> (string \<rightharpoonup> pyval)) \<times> 'e MultiStepTaskWrapper" where
  "MultiStepTaskWrapper_reset env_reset self =
     (let self1 = self\<lparr>current_steps := 0\<rparr> in
      case env_reset (env self1) of
        Inl err \<Rightarrow> Inl err
      | Inr (oi, e') \<Rightarrow> Inr (oi, self1\<lparr>env := e'\<rparr>))"

section \<open>PartialObservabilityWrapper\<close>

record 'e PartialObservabilityWrapper = "'e Wrapper" +
  observable_ratio :: real

definition PartialObservabilityWrapper_init ::
  "'e \<Rightarrow> real \<Rightarrow> error + 'e PartialObservabilityWrapper" where
  "PartialObservabilityWrapper_init e ratio = Inr \<lparr>env = e, observable_ratio = ratio\<rparr>"

text \<open>
  \<^verbatim>\<open>np.random.rand(*observation.shape)\<close> draws one number for each component, each
  in the half-open interval from 0 to 1.  The draws of one call are the argument
  \<open>draws\<close>: \<open>draws i\<close> is the number drawn for component \<open>i\<close>.
\<close>

definition PartialObservabilityWrapper_observation ::
  "'e PartialObservabilityWrapper \<Rightarrow> (nat \<Rightarrow> real) \<Rightarrow> real list \<Rightarrow> real list" where
  "PartialObservabilityWrapper_observation self draws obs =
     map (\<lambda>i. if draws i < observable_ratio self then obs ! i else 0) [0..<length obs]"

text \<open>
  \<^verbatim>\<open>step\<close> and \<^verbatim>\<open>reset\<close> are those of \<^verbatim>\<open>gym.ObservationWrapper\<close>: the inner
  call, then \<^verbatim>\<open>self.observation\<close> on the observation returned.
\<close>

definition PartialObservabilityWrapper_step ::
  "'e env_step \<Rightarrow> (nat \<Rightarrow> real) \<Rightarrow> 'e PartialObservabilityWrapper \<Rightarrow> real list \<Rightarrow>
     error + transition \<times> 'e PartialObservabilityWrapper" where
  "PartialObservabilityWrapper_step env_step draws self action =
     (case env_step (env self) action of
        Inl err \<Rightarrow> Inl err
      | Inr (t, e') \<Rightarrow>
          Inr (t\<lparr>observation :=
                   PartialObservabilityWrapper_observation self draws (observation t)\<rparr>,
               self\<lparr>env := e'\<rparr>))"

definition PartialObservabilityWrapper_reset ::
  "'e env_reset \<Rightarrow> (nat \<Rightarrow> real) \<Rightarrow> 'e PartialObservabilityWrapper \<Rightarrow>
     error + (real list \<times> (string \<rightharpoonup> pyval)) \<times> 'e PartialObservabilityWrapper" where
  "PartialObservabilityWrapper_reset env_reset draws self =
     (case env_reset (env self) of
        Inl err \<Rightarrow> Inl err
      | Inr ((obs, d), e') \<Rightarrow>
          Inr ((PartialObservabilityWrapper_observation self draws obs, d),
               self\<lparr>env := e'\<rparr>))"

section \<open>NonLinearDynamicsWrapper\<close>

record 'e NonLinearDynamicsWrapper = "'e Wrapper" +
  dynamic_change_threshold :: int
  step_count :: int

definition NonLinearDynamicsWrapper_init ::
  "'e \<Rightarrow> int \<Rightarrow> error + 'e NonLinearDynamicsWrapper" where
  "NonLinearDynamicsWrapper_init e threshold =
     Inr \<lparr>env = e, dynamic_change_threshold = threshold, step_count = 0\<rparr>"

text \<open>
  \<open>coin\<close> is the number \<^verbatim>\<open>random.random()\<close> returns and \<open>factor\<close> the number
  \<^verbatim>\<open>random.uniform(1.2, 2.0)\<close> returns when the step asks for them; \<open>factor\<close> lies
  between 1.2 and 2.0, so the division never has a zero divisor.  The class defines
  no \<^verbatim>\<open>reset\<close>: its \<^verbatim>\<open>reset\<close> is \<open>Wrapper_reset\<close>.
\<close>

definition NonLinearDynamicsWrapper_step ::
  "'e env_step \<Rightarrow> real \<Rightarrow> real \<Rightarrow> 'e NonLinearDynamicsWrapper \<Rightarrow> real list \<Rightarrow>
     error + transition \<times> 'e NonLinearDynamicsWrapper" where
  "NonLinearDynamicsWrapper_step env_step coin factor self action =
     (let self1 = self\<lparr>step_count := step_count self + 1\<rparr>;
          action1 = (if dynamic_change_threshold self1 < step_count self1
                     then (if 0.5 < coin then map (\<lambda>x. x * factor) action
                           else map (\<lambda>x. x / factor) action)
                     else action)
      in case env_step (env self1) action1 of
           Inl err \<Rightarrow> Inl err
         | Inr (t, e') \<Rightarrow> Inr (t, self1\<lparr>env := e'\<rparr>))"

section \<open>A scripted base environment\<close>

text \<open>
  To run the wrappers on concrete inputs: an environment whose state is the list of
  the actions it has received.  It answers a step with the transition \<open>f action\<close> and
  a reset with \<open>oi\<close>.  \<open>probe_transition\<close> is one choice of \<open>f\<close>: the action shows
  up in the observation from component 8 on, and the reward is the sum of the action.
\<close>

definition scripted_step :: "(real list \<Rightarrow> transition) \<Rightarrow> (real list list) env_step" where
  "scripted_step f seen action = Inr (f action, seen @ [action])"

definition scripted_reset ::
  "real list \<times> (string \<rightharpoonup> pyval) \<Rightarrow> (real list list) env_reset" where
  "scripted_reset oi seen = Inr (oi, seen)"

definition probe_transition :: "real list \<Rightarrow> transition" where
  "probe_transition action =
     \<lparr>observation = [1, 0, 0, 0, 0, 0, 0, 0] @ action, reward = sum_list action,
      terminated = False, truncated = True, info = Map.empty\<rparr>"

section \<open>What a step of the two stateless reward stages returns\<close>

lemma TargetVelocityWrapper_step_ok:
  assumes "env_step (env self) action = Inr (t, e')" "8 < length (observation t)"
    "tolerance self \<noteq> 0"
  shows "TargetVelocityWrapper_step env_step self action =
     Inr (t\<lparr>reward := max 0 (1 - \<bar>target_velocity self - observation t ! 8\<bar> / tolerance self)\<rparr>,
          self\<lparr>env := e'\<rparr>)"
  using assms by (simp add: TargetVelocityWrapper_step_def getitem_def truediv_def)

lemma JumpRewardWrapper_step_ok:
  assumes "env_step (env self) action = Inr (t, e')" "0 < length (observation t)"
    "jump_target_height self \<noteq> 0"
  shows "JumpRewardWrapper_step env_step self action =
     Inr (t\<lparr>reward := observation t ! 0 / jump_target_height self\<rparr>, self\<lparr>env := e'\<rparr>)"
  using assms by (simp add: JumpRewardWrapper_step_def getitem_def truediv_def)

section \<open>The queue of the delayed-reward stage\<close>

text \<open>
  While the queue, with the new reward in it, is still shorter than \<open>delay_steps\<close>,
  \<^verbatim>\<open>reward\<close> emits 0 and keeps the reward; when it has reached \<open>delay_steps\<close>
  entries, the oldest one is emitted.
\<close>

lemma DelayedRewardWrapper_reward_filling:
  assumes "int (length (reward_buffer self)) + 1 < delay_steps self"
  shows "DelayedRewardWrapper_reward self r =
     Inr (0, self\<lparr>reward_buffer := reward_buffer self @ [r]\<rparr>)"
  using assms by (simp add: DelayedRewardWrapper_reward_def deque_append_def Let_def)

lemma DelayedRewardWrapper_reward_release:
  assumes "int (length (reward_buffer self)) + 1 = delay_steps self"
  shows "DelayedRewardWrapper_reward self r =
     Inr (hd (reward_buffer self @ [r]), self\<lparr>reward_buffer := tl (reward_buffer self @ [r])\<rparr>)"
proof -
  obtain x xs where q: "reward_buffer self @ [r] = x # xs"
    by (cases "reward_buffer self @ [r]") auto
  have len: "int (length (reward_buffer self @ [r])) = delay_steps self"
    using assms by simp
  show ?thesis
    unfolding DelayedRewardWrapper_reward_def deque_append_def Let_def
    using len q by simp
qed

text \<open>
  From any queue shorter than \<open>delay_steps\<close>: the rewards emitted are the first
  \<open>length rs\<close> entries of the missing zeros, the queue and the new rewards, in this
  order, and the queue is left holding the last \<open>delay_steps - 1\<close> of them.
\<close>

lemma feed_rewards_general:
  assumes "int (length (reward_buffer self)) < delay_steps self"
  shows "feed_rewards self rs =
     Inr (take (length rs)
            (replicate (nat (delay_steps self) - 1 - length (reward_buffer self)) 0
               @ reward_buffer self @ rs),
          self\<lparr>reward_buffer :=
                 drop (length (reward_buffer self) + length rs - (nat (delay_steps self) - 1))
                   (reward_buffer self @ rs)\<rparr>)"
  using assms
proof (induction rs arbitrary: self)
  case Nil
  then show ?case by simp
next
  case (Cons r rs)
  let ?q = "reward_buffer self"
  let ?n = "nat (delay_steps self) - 1"
  show ?case
  proof (cases "int (length ?q) + 1 < delay_steps self")
    case True
    let ?self' = "self\<lparr>reward_buffer := ?q @ [r]\<rparr>"
    have step: "DelayedRewardWrapper_reward self r = Inr (0, ?self')"
      using True by (rule DelayedRewardWrapper_reward_filling)
    have pre: "int (length (reward_buffer ?self')) < delay_steps ?self'" using True by simp
    have rep: "replicate (?n - length ?q) (0::real) = 0 # replicate (?n - 1 - length ?q) 0"
      using True by (cases "?n - length ?q") (auto simp: nat_diff_distrib)
    have n': "nat (delay_steps ?self') - 1 - length (reward_buffer ?self') = ?n - 1 - length ?q"
      by simp
    show ?thesis
      using Cons.IH [OF pre] step rep by (simp add: n')
  next
    case False
    with Cons.prems have full: "int (length ?q) + 1 = delay_steps self" by simp
    let ?self' = "self\<lparr>reward_buffer := tl (?q @ [r])\<rparr>"
    have step: "DelayedRewardWrapper_reward self r = Inr (hd (?q @ [r]), ?self')"
      using full by (rule DelayedRewardWrapper_reward_release)
    have pre: "int (length (reward_buffer ?self')) < delay_steps ?self'" using full by simp
    have n: "nat (delay_steps self) - Suc 0 = length ?q" using full by simp
    have n0: "nat (delay_steps self) - Suc (length ?q) = 0" using full by simp
    obtain x xs where q: "?q @ [r] = x # xs" by (cases "?q @ [r]") auto
    then have lenxs: "length xs = length ?q"
      by (metis length_Cons length_append_singleton nat.inject)
    have app: "?q @ r # rs = x # xs @ rs"
      using q by (metis append.assoc append_Cons append_Nil)
    have ih: "feed_rewards ?self' rs =
       Inr (take (length rs) (xs @ rs), self\<lparr>reward_buffer := drop (length rs) (xs @ rs)\<rparr>)"
      using Cons.IH [OF pre] by (simp add: q lenxs n n0)
    have goal_out: "take (length (r # rs)) (replicate (?n - length ?q) 0 @ ?q @ r # rs)
        = x # take (length rs) (xs @ rs)"
      by (simp add: n app)
    have goal_buf: "drop (length ?q + length (r # rs) - ?n) (?q @ r # rs) = drop (length rs) (xs @ rs)"
      by (simp add: n app)
    show ?thesis
      unfolding goal_out goal_buf using step ih by (simp add: q)
  qed
qed

section \<open>Delayed rewards\<close>

text \<open>
  Claim C1, as amended.  A freshly constructed Delayed-Reward stage with
  \<open>delay_steps = d \<ge> 1\<close> emits 0 on its first \<open>d - 1\<close> steps (not on its first
  \<open>d\<close>), and on step \<open>k\<close> thereafter it emits the inner reward of step
  \<open>k - (d - 1)\<close>: the emitted sequence is \<open>d - 1\<close> zeros followed by the inner rewards,
  cut to the number of steps taken.  The last \<open>d - 1\<close> inner rewards stay in the
  queue.  With \<open>d = 3\<close> the inner rewards \<open>r0, r1, r2, r3, r4\<close> give
  \<open>0, 0, r0, r1, r2\<close>.
\<close>

theorem delayed_reward_emission:
  assumes "DelayedRewardWrapper_init e d = Inr self" and "1 \<le> d"
  shows "\<exists>out self'. feed_rewards self rs = Inr (out, self')
     \<and> out = take (length rs) (replicate (nat (d - 1)) 0 @ rs)
     \<and> length out = length rs
     \<and> (\<forall>k < length rs. out ! k = (if int k < d - 1 then 0 else rs ! (k - nat (d - 1))))
     \<and> reward_buffer self' = drop (length rs - nat (d - 1)) rs"
proof -
  from assms have self: "self = \<lparr>env = e, delay_steps = d, reward_buffer = []\<rparr>"
    by (simp add: DelayedRewardWrapper_init_def split: if_splits)
  let ?n = "nat (d - 1)"
  let ?out = "take (length rs) (replicate ?n 0 @ rs)"
  have n: "nat d - 1 = ?n" using assms(2) by simp
  have pre: "int (length (reward_buffer self)) < delay_steps self"
    using assms(2) self by simp
  have run: "feed_rewards self rs = Inr (?out, self\<lparr>reward_buffer := drop (length rs - ?n) rs\<rparr>)"
    using feed_rewards_general [OF pre, of rs] self n by simp
  have len: "length ?out = length rs" by simp
  have nth: "\<forall>k < length rs. ?out ! k = (if int k < d - 1 then 0 else rs ! (k - ?n))"
  proof (intro allI impI)
    fix k assume k: "k < length rs"
    show "?out ! k = (if int k < d - 1 then 0 else rs ! (k - ?n))"
    proof (cases "int k < d - 1")
      case True
      then have "k < ?n" by simp
      with k True show ?thesis by (simp add: nth_append)
    next
      case False
      then have "\<not> k < ?n" by simp
      with k False show ?thesis by (simp add: nth_append)
    qed
  qed
  show ?thesis using run len nth by simp
qed

theorem delayed_reward_emission_witness:
  "DelayedRewardWrapper_init ([] :: real list list) 3
     = Inr \<lparr>env = [], delay_steps = 3, reward_buffer = []\<rparr>
   \<and> (1::int) \<le> 3
   \<and> (\<exists>self'. feed_rewards \<lparr>env = ([] :: real list list), delay_steps = 3, reward_buffer = []\<rparr>
                  [11, 12, 13, 14, 15]
                = Inr ([0, 0, 11, 12, 13], self')
              \<and> reward_buffer self' = [14, 15])"
proof -
  let ?w = "\<lparr>env = ([] :: real list list), delay_steps = 3, reward_buffer = []\<rparr>"
  let ?rs = "[11, 12, 13, 14, 15] :: real list"
  have h1: "DelayedRewardWrapper_init ([] :: real list list) 3 = Inr ?w"
    by (simp add: DelayedRewardWrapper_init_def)
  have h2: "(1::int) \<le> 3" by simp
  from delayed_reward_emission [OF h1 h2, of ?rs] obtain out self' where
    run: "feed_rewards ?w ?rs = Inr (out, self')"
    and out: "out = take (length ?rs) (replicate (nat (3 - 1)) 0 @ ?rs)"
    and buf: "reward_buffer self' = drop (length ?rs - nat (3 - 1)) ?rs"
    by blast
  have o: "out = [0, 0, 11, 12, 13]" using out by (simp add: numeral_2_eq_2)
  have b: "reward_buffer self' = [14, 15]" using buf by (simp add: numeral_3_eq_3)
  have "\<exists>self'. feed_rewards ?w ?rs = Inr ([0, 0, 11, 12, 13], self')
      \<and> reward_buffer self' = [14, 15]"
    using run o b by (intro exI [of _ self']) simp
  with h1 h2 show ?thesis by blast
qed

text \<open>
  The claim as it was stated fails: with \<open>delay_steps = 3\<close> and the inner rewards
  10, 20, 30, 40, 50 the third step already emits 10.
\<close>

theorem delayed_reward_three_zeros_counterexample:
  "feed_rewards \<lparr>env = ([] :: real list list), delay_steps = 3, reward_buffer = []\<rparr>
       [10, 20, 30, 40, 50]
     = Inr ([0, 0, 10, 20, 30], \<lparr>env = [], delay_steps = 3, reward_buffer = [40, 50]\<rparr>)
   \<and> [0, 0, 10, 20, 30] \<noteq> [0, 0, 0, 10, 20 :: real]"
  by (simp add: DelayedRewardWrapper_reward_def deque_append_def)

text \<open>
  Claim C2 says that \<^verbatim>\<open>reset\<close> clears the queue.  The class has no \<^verbatim>\<open>reset\<close> of
  its own, and the inherited one leaves the queue alone.  With \<open>delay_steps = 3\<close>:
  an episode with the inner rewards 10 and 20 emits 0 and 0 and leaves both queued;
  \<^verbatim>\<open>reset\<close> returns with the queue unchanged; the first step of the next episode,
  whose inner reward is 30, emits the 10 of the episode before.
\<close>

theorem delayed_reward_reset_keeps_queue:
  "feed_rewards \<lparr>env = ([] :: real list list), delay_steps = 3, reward_buffer = []\<rparr> [10, 20]
     = Inr ([0, 0], \<lparr>env = [], delay_steps = 3, reward_buffer = [10, 20]\<rparr>)
   \<and> Wrapper_reset (scripted_reset ([], Map.empty))
         \<lparr>env = [], delay_steps = 3, reward_buffer = [10, 20]\<rparr>
       = Inr (([], Map.empty), \<lparr>env = [], delay_steps = 3, reward_buffer = [10, 20]\<rparr>)
   \<and> DelayedRewardWrapper_reward
         \<lparr>env = ([] :: real list list), delay_steps = 3, reward_buffer = [10, 20]\<rparr> 30
       = Inr (10, \<lparr>env = [], delay_steps = 3, reward_buffer = [20, 30]\<rparr>)"
  by (simp add: DelayedRewardWrapper_reward_def deque_append_def Wrapper_reset_def
      scripted_reset_def)

section \<open>Target velocity and jump height\<close>

text \<open>
  Claim C6.  For a positive tolerance, a step of the Target-Velocity stage on an
  inner observation that has a component 8 emits the reward
  \<open>max 0 (1 - \<bar>target_velocity - velocity\<bar> / tolerance)\<close>.  It is 1 when the
  velocity is the target, 0 when the error is at least the tolerance, it lies between
  0 and 1, and of two steps the one with the larger error has the smaller or equal
  reward (for any two errors, so also for those between 0 and the tolerance).
\<close>

theorem target_velocity_reward:
  assumes "0 < tolerance self"
    and "env_step (env self) a1 = Inr (t1, e1)" and "8 < length (observation t1)"
    and "env_step (env self) a2 = Inr (t2, e2)" and "8 < length (observation t2)"
  shows "\<exists>r1 r2.
      TargetVelocityWrapper_step env_step self a1 = Inr (t1\<lparr>reward := r1\<rparr>, self\<lparr>env := e1\<rparr>)
    \<and> TargetVelocityWrapper_step env_step self a2 = Inr (t2\<lparr>reward := r2\<rparr>, self\<lparr>env := e2\<rparr>)
    \<and> r1 = max 0 (1 - \<bar>target_velocity self - observation t1 ! 8\<bar> / tolerance self)
    \<and> (observation t1 ! 8 = target_velocity self \<longrightarrow> r1 = 1)
    \<and> (tolerance self \<le> \<bar>target_velocity self - observation t1 ! 8\<bar> \<longrightarrow> r1 = 0)
    \<and> 0 \<le> r1 \<and> r1 \<le> 1
    \<and> (\<bar>target_velocity self - observation t1 ! 8\<bar>
          \<le> \<bar>target_velocity self - observation t2 ! 8\<bar> \<longrightarrow> r2 \<le> r1)"
proof -
  let ?tol = "tolerance self"
  let ?err1 = "\<bar>target_velocity self - observation t1 ! 8\<bar>"
  let ?err2 = "\<bar>target_velocity self - observation t2 ! 8\<bar>"
  let ?r1 = "max 0 (1 - ?err1 / ?tol)"
  let ?r2 = "max 0 (1 - ?err2 / ?tol)"
  from assms have nz: "?tol \<noteq> 0" by simp
  have s1: "TargetVelocityWrapper_step env_step self a1
      = Inr (t1\<lparr>reward := ?r1\<rparr>, self\<lparr>env := e1\<rparr>)"
    using assms(2,3) nz by (rule TargetVelocityWrapper_step_ok)
  have s2: "TargetVelocityWrapper_step env_step self a2
      = Inr (t2\<lparr>reward := ?r2\<rparr>, self\<lparr>env := e2\<rparr>)"
    using assms(4,5) nz by (rule TargetVelocityWrapper_step_ok)
  have q1: "0 \<le> ?err1 / ?tol" using assms(1) by simp
  have hit: "observation t1 ! 8 = target_velocity self \<longrightarrow> ?r1 = 1" by simp
  have far: "?tol \<le> ?err1 \<longrightarrow> ?r1 = 0"
  proof
    assume "?tol \<le> ?err1"
    with assms(1) have "1 \<le> ?err1 / ?tol" by (simp add: le_divide_eq)
    then show "?r1 = 0" by simp
  qed
  have rng: "0 \<le> ?r1 \<and> ?r1 \<le> 1" using q1 by simp
  have mono: "?err1 \<le> ?err2 \<longrightarrow> ?r2 \<le> ?r1"
  proof
    assume "?err1 \<le> ?err2"
    with assms(1) have "?err1 / ?tol \<le> ?err2 / ?tol" by (simp add: divide_right_mono)
    then show "?r2 \<le> ?r1" by simp
  qed
  show ?thesis using s1 s2 hit far rng mono by blast
qed

theorem target_velocity_reward_witness:
  "0 < tolerance \<lparr>env = ([] :: real list list), target_velocity = 2, tolerance = 1 / 2\<rparr>
   \<and> scripted_step probe_transition [] [7 / 4] = Inr (probe_transition [7 / 4], [[7 / 4]])
   \<and> scripted_step probe_transition [] [1] = Inr (probe_transition [1], [[1]])
   \<and> TargetVelocityWrapper_step (scripted_step probe_transition)
         \<lparr>env = ([] :: real list list), target_velocity = 2, tolerance = 1 / 2\<rparr> [7 / 4]
       = Inr ((probe_transition [7 / 4])\<lparr>reward := 1 / 2\<rparr>,
              \<lparr>env = [[7 / 4]], target_velocity = 2, tolerance = 1 / 2\<rparr>)
   \<and> (\<exists>r2. TargetVelocityWrapper_step (scripted_step probe_transition)
               \<lparr>env = ([] :: real list list), target_velocity = 2, tolerance = 1 / 2\<rparr> [1]
             = Inr ((probe_transition [1])\<lparr>reward := r2\<rparr>,
                    \<lparr>env = [[1]], target_velocity = 2, tolerance = 1 / 2\<rparr>)
           \<and> r2 \<le> 1 / 2)"
proof -
  let ?w = "\<lparr>env = ([] :: real list list), target_velocity = 2, tolerance = 1 / 2\<rparr>"
  have h1: "0 < tolerance ?w" by simp
  have h2: "scripted_step probe_transition (env ?w) [7 / 4]
      = Inr (probe_transition [7 / 4], [[7 / 4]])"
    by (simp add: scripted_step_def)
  have h3: "8 < length (observation (probe_transition [7 / 4]))"
    by (simp add: probe_transition_def)
  have h4: "scripted_step probe_transition (env ?w) [1] = Inr (probe_transition [1], [[1]])"
    by (simp add: scripted_step_def)
  have h5: "8 < length (observation (probe_transition [1]))"
    by (simp add: probe_transition_def)
  have v1: "observation (probe_transition [7 / 4]) ! 8 = 7 / 4"
    by (simp add: probe_transition_def)
  have v2: "observation (probe_transition [1]) ! 8 = 1"
    by (simp add: probe_transition_def)
  from target_velocity_reward [of ?w "scripted_step probe_transition" "[7 / 4]"
      "probe_transition [7 / 4]" "[[7 / 4]]" "[1]" "probe_transition [1]" "[[1]]",
      OF h1 h2 h3 h4 h5]
  obtain r1 r2 where
    s1: "TargetVelocityWrapper_step (scripted_step probe_transition) ?w [7 / 4]
           = Inr ((probe_transition [7 / 4])\<lparr>reward := r1\<rparr>, ?w\<lparr>env := [[7 / 4]]\<rparr>)"
    and s2: "TargetVelocityWrapper_step (scripted_step probe_transition) ?w [1]
           = Inr ((probe_transition [1])\<lparr>reward := r2\<rparr>, ?w\<lparr>env := [[1]]\<rparr>)"
    and r1: "r1 = max 0 (1 - \<bar>target_velocity ?w - observation (probe_transition [7 / 4]) ! 8\<bar>
                          / tolerance ?w)"
    and mono: "\<bar>target_velocity ?w - observation (probe_transition [7 / 4]) ! 8\<bar>
                 \<le> \<bar>target_velocity ?w - observation (probe_transition [1]) ! 8\<bar>
               \<longrightarrow> r2 \<le> r1"
    by blast
  have e1: "r1 = 1 / 2" using r1 by (simp add: v1)
  have e2: "r2 \<le> 1 / 2" using mono e1 by (simp add: v1 v2)
  have s1': "TargetVelocityWrapper_step (scripted_step probe_transition) ?w [7 / 4]
           = Inr ((probe_transition [7 / 4])\<lparr>reward := 1 / 2\<rparr>,
                  \<lparr>env = [[7 / 4]], target_velocity = 2, tolerance = 1 / 2\<rparr>)"
    using s1 e1 by simp
  have s2': "\<exists>r2. TargetVelocityWrapper_step (scripted_step probe_transition) ?w [1]
           = Inr ((probe_transition [1])\<lparr>reward := r2\<rparr>,
                  \<lparr>env = [[1]], target_velocity = 2, tolerance = 1 / 2\<rparr>) \<and> r2 \<le> 1 / 2"
    using s2 e2 by (intro exI [of _ r2]) simp
  from h1 h2 [simplified] h4 [simplified] s1' s2' show ?thesis by blast
qed

text \<open>
  Claim C10.  A step of the Target-Velocity stage or of the Jump-Height stage that
  returns gives back the transition of the inner step with only the reward replaced:
  observation, terminated, truncated and info are those of the inner step, and the
  stage only records the new state of the inner environment.  The step returns
  whenever the inner step does, the observation has the component read (8, or 0)
  and the divisor is not 0.
\<close>

theorem reward_only_replaced:
  "(env_step (env tw) action = Inr (t, e') \<and> 8 < length (observation t) \<and> tolerance tw \<noteq> 0
      \<longrightarrow> (\<exists>r. TargetVelocityWrapper_step env_step tw action
                 = Inr (t\<lparr>reward := r\<rparr>, tw\<lparr>env := e'\<rparr>)))
   \<and> (env_step (env jw) action = Inr (t, e') \<and> 0 < length (observation t)
        \<and> jump_target_height jw \<noteq> 0
      \<longrightarrow> (\<exists>r. JumpRewardWrapper_step env_step jw action
                 = Inr (t\<lparr>reward := r\<rparr>, jw\<lparr>env := e'\<rparr>)))"
  using TargetVelocityWrapper_step_ok [of env_step tw action t e']
    JumpRewardWrapper_step_ok [of env_step jw action t e']
  by blast

theorem reward_only_replaced_witness:
  "scripted_step probe_transition [] [3] = Inr (probe_transition [3], [[3]])
   \<and> 8 < length (observation (probe_transition [3]))
   \<and> tolerance \<lparr>env = ([] :: real list list), target_velocity = 2, tolerance = 1 / 2\<rparr> \<noteq> 0
   \<and> jump_target_height \<lparr>env = ([] :: real list list), jump_target_height = 2\<rparr> \<noteq> 0
   \<and> (\<exists>r. TargetVelocityWrapper_step (scripted_step probe_transition)
             \<lparr>env = [], target_velocity = 2, tolerance = 1 / 2\<rparr> [3]
           = Inr ((probe_transition [3])\<lparr>reward := r\<rparr>,
                  \<lparr>env = [[3]], target_velocity = 2, tolerance = 1 / 2\<rparr>))
   \<and> (\<exists>r. JumpRewardWrapper_step (scripted_step probe_transition)
             \<lparr>env = [], jump_target_height = 2\<rparr> [3]
           = Inr ((probe_transition [3])\<lparr>reward := r\<rparr>, \<lparr>env = [[3]], jump_target_height = 2\<rparr>))"
proof -
  let ?tw = "\<lparr>env = ([] :: real list list), target_velocity = 2, tolerance = 1 / 2\<rparr>"
  let ?jw = "\<lparr>env = ([] :: real list list), jump_target_height = 2\<rparr>"
  have h1: "scripted_step probe_transition [] [3] = Inr (probe_transition [3], [[3]])"
    by (simp add: scripted_step_def)
  have h2: "8 < length (observation (probe_transition [3]))"
    by (simp add: probe_transition_def)
  have h3: "tolerance ?tw \<noteq> 0" by simp
  have h4: "jump_target_height ?jw \<noteq> 0" by simp
  have h5: "0 < length (observation (probe_transition [3]))"
    by (simp add: probe_transition_def)
  from reward_only_replaced [of "scripted_step probe_transition" ?tw "[3]"
      "probe_transition [3]" "[[3]]" ?jw] h1 h2 h3 h4 h5
  have "(\<exists>r. TargetVelocityWrapper_step (scripted_step probe_transition) ?tw [3]
           = Inr ((probe_transition [3])\<lparr>reward := r\<rparr>, ?tw\<lparr>env := [[3]]\<rparr>))
     \<and> (\<exists>r. JumpRewardWrapper_step (scripted_step probe_transition) ?jw [3]
           = Inr ((probe_transition [3])\<lparr>reward := r\<rparr>, ?jw\<lparr>env := [[3]]\<rparr>))"
    by simp
  with h1 h2 h3 h4 show ?thesis by simp
qed

text \<open>
  Claim C4, as amended.  Constructing the Target-Velocity stage with
  \<open>tolerance = 0\<close>, or the Jump-Height stage with \<open>jump_target_height = 0\<close>, does
  not fail: for every value of the other parameters the constructor stores its
  arguments as they are and returns the stage.  Neither \<^verbatim>\<open>__init__\<close> looks at the
  value it is given.
\<close>

theorem construction_accepts_zero_divisor:
  "TargetVelocityWrapper_init e tv tol = Inr \<lparr>env = e, target_velocity = tv, tolerance = tol\<rparr>
   \<and> TargetVelocityWrapper_init e tv 0 \<noteq> Inl err
   \<and> JumpRewardWrapper_init e h = Inr \<lparr>env = e, jump_target_height = h\<rparr>
   \<and> JumpRewardWrapper_init e 0 \<noteq> Inl err"
  by (simp add: TargetVelocityWrapper_init_def JumpRewardWrapper_init_def)

text \<open>
  The claim as it was stated fails: both constructors return a stage for a zero
  divisor.
\<close>

theorem construction_zero_divisor_counterexample:
  "TargetVelocityWrapper_init ([] :: real list list) 2 0
     = Inr \<lparr>env = [], target_velocity = 2, tolerance = 0\<rparr>
   \<and> JumpRewardWrapper_init ([] :: real list list) 0 = Inr \<lparr>env = [], jump_target_height = 0\<rparr>"
  by (simp add: TargetVelocityWrapper_init_def JumpRewardWrapper_init_def)

section \<open>The slow factor\<close>

text \<open>
  Claim C5 says that after \<open>N\<close> resets \<open>slow_factor\<close> is
  \<open>min (1 + slow_scale * N) max_slow_factor\<close> and never exceeds
  \<open>max_slow_factor\<close>.  \<^verbatim>\<open>reset\<close> adds \<open>slow_scale\<close> whenever the factor is below
  the maximum and does not cut the sum back: with \<open>slow_scale = 0.75\<close> and
  \<open>max_slow_factor = 2\<close> the factor is 1.75 after one reset and 2.5 after two, where
  the claim gives 2.
\<close>

theorem slow_factor_overshoots_max:
  "MultiTimescaleWrapper_init ([] :: real list list) (3 / 4) (1 / 10) 2
     = Inr \<lparr>env = [], slow_factor = 1, fast_factor = 1, slow_scale = 3 / 4,
            fast_scale = 1 / 10, max_slow_factor = 2, episode_count = 0\<rparr>
   \<and> resets (scripted_reset ([], Map.empty)) 2
       \<lparr>env = [], slow_factor = 1, fast_factor = 1, slow_scale = 3 / 4,
        fast_scale = 1 / 10, max_slow_factor = 2, episode_count = 0\<rparr>
     = Inr \<lparr>env = [], slow_factor = 5 / 2, fast_factor = 1, slow_scale = 3 / 4,
            fast_scale = 1 / 10, max_slow_factor = 2, episode_count = 2\<rparr>
   \<and> min (1 + 3 / 4 * 2) 2 < (5 / 2 :: real)"
  by (simp add: MultiTimescaleWrapper_init_def MultiTimescaleWrapper_reset_def
      scripted_reset_def numeral_2_eq_2)

section \<open>The multi-step goal\<close>

text \<open>
  Claim C3 says that a step without goal on which the incremented counter has
  reached \<open>reward_goal_steps\<close> emits 0.0 when \<open>penalize_non_goal\<close> is false.  That
  branch of \<^verbatim>\<open>step\<close> assigns the reward only under \<^verbatim>\<open>if self.penalize_non_goal\<close>,
  so without the penalty the reward of the inner step goes out as it came: here the
  inner reward 5, with \<open>reward_goal_steps = 2\<close> and the counter at 1 before the step.
  The counter is set back to 0.
\<close>

theorem multi_step_timeout_keeps_inner_reward:
  "MultiStepTaskWrapper_step (scripted_step probe_transition)
     \<lparr>env = [], steps_to_goal = 2, current_steps = 1, penalize_non_goal = False,
      goal_reached_condition = default_goal_reached_condition\<rparr> [5]
   = Inr (probe_transition [5],
          \<lparr>env = [[5]], steps_to_goal = 2, current_steps = 0, penalize_non_goal = False,
           goal_reached_condition = default_goal_reached_condition\<rparr>)
   \<and> reward (probe_transition [5]) = 5"
  by (simp add: MultiStepTaskWrapper_step_def scripted_step_def probe_transition_def
      default_goal_reached_condition_def)

text \<open>
  Claim C7.  A step on which the goal predicate holds emits the reward 1 and sets
  the counter to 0, whatever the counter was.  The default predicate is false on an
  info dictionary without the key \<^verbatim>\<open>is_goal_reached\<close>, and a step with the default
  predicate on such a dictionary returns (it is not an error) through one of the two
  branches for a goal not reached.
\<close>

theorem multi_step_goal_reached:
  "(env_step (env self) action = Inr (t, e')
      \<and> goal_reached_condition self (observation t) (info t)
    \<longrightarrow> MultiStepTaskWrapper_step env_step self action
          = Inr (t\<lparr>reward := 1\<rparr>, self\<lparr>env := e', current_steps := 0\<rparr>))
   \<and> (d ''is_goal_reached'' = None \<longrightarrow> \<not> default_goal_reached_condition obs d)
   \<and> (env_step2 (env self2) action2 = Inr (t2, e2)
      \<and> goal_reached_condition self2 = default_goal_reached_condition
      \<and> info t2 ''is_goal_reached'' = None
    \<longrightarrow> MultiStepTaskWrapper_step env_step2 self2 action2
          = (if steps_to_goal self2 \<le> current_steps self2 + 1
             then Inr (if penalize_non_goal self2 then t2\<lparr>reward := - 0.5\<rparr> else t2,
                       self2\<lparr>env := e2, current_steps := 0\<rparr>)
             else Inr (t2\<lparr>reward := 0\<rparr>,
                       self2\<lparr>env := e2, current_steps := current_steps self2 + 1\<rparr>)))"
  by (simp add: MultiStepTaskWrapper_step_def default_goal_reached_condition_def Let_def)

theorem multi_step_goal_reached_witness:
  "scripted_step (\<lambda>a. (probe_transition a)\<lparr>info := [''is_goal_reached'' \<mapsto> PyBool True]\<rparr>) [] [5]
     = Inr ((probe_transition [5])\<lparr>info := [''is_goal_reached'' \<mapsto> PyBool True]\<rparr>, [[5]])
   \<and> default_goal_reached_condition [] [''is_goal_reached'' \<mapsto> PyBool True]
   \<and> MultiStepTaskWrapper_step
         (scripted_step (\<lambda>a. (probe_transition a)\<lparr>info := [''is_goal_reached'' \<mapsto> PyBool True]\<rparr>))
         \<lparr>env = [], steps_to_goal = 2, current_steps = 1, penalize_non_goal = True,
          goal_reached_condition = default_goal_reached_condition\<rparr> [5]
       = Inr ((probe_transition [5])\<lparr>info := [''is_goal_reached'' \<mapsto> PyBool True], reward := 1\<rparr>,
              \<lparr>env = [[5]], steps_to_goal = 2, current_steps = 0, penalize_non_goal = True,
               goal_reached_condition = default_goal_reached_condition\<rparr>)
   \<and> (Map.empty :: string \<rightharpoonup> pyval) ''is_goal_reached'' = None
   \<and> \<not> default_goal_reached_condition [] Map.empty
   \<and> MultiStepTaskWrapper_step (scripted_step probe_transition)
         \<lparr>env = [], steps_to_goal = 2, current_steps = 1, penalize_non_goal = True,
          goal_reached_condition = default_goal_reached_condition\<rparr> [5]
       = Inr ((probe_transition [5])\<lparr>reward := - 0.5\<rparr>,
              \<lparr>env = [[5]], steps_to_goal = 2, current_steps = 0, penalize_non_goal = True,
               goal_reached_condition = default_goal_reached_condition\<rparr>)"
  using multi_step_goal_reached [of "scripted_step (\<lambda>a. (probe_transition a)\<lparr>info := [''is_goal_reached'' \<mapsto> PyBool True]\<rparr>)"
      "\<lparr>env = [], steps_to_goal = 2, current_steps = 1, penalize_non_goal = True,
          goal_reached_condition = default_goal_reached_condition\<rparr>"
      "[5]" "(probe_transition [5])\<lparr>info := [''is_goal_reached'' \<mapsto> PyBool True]\<rparr>" "[[5]]"
      Map.empty "[]"
      "scripted_step probe_transition"
      "\<lparr>env = [], steps_to_goal = 2, current_steps = 1, penalize_non_goal = True,
          goal_reached_condition = default_goal_reached_condition\<rparr>"
      "[5]" "probe_transition [5]" "[[5]]"]
  by (simp add: scripted_step_def probe_transition_def default_goal_reached_condition_def)

section \<open>Partial observability\<close>

text \<open>
  Claim C8.  With \<open>observable_ratio = 1\<close> and draws that lie, as those of
  \<^verbatim>\<open>np.random.rand\<close> do, in the half-open interval from 0 to 1, the observation
  comes out as it went in, component for component, and so a step returns the
  transition of the inner step unchanged.
\<close>

theorem partial_observability_ratio_one:
  assumes "observable_ratio self = 1" and "\<forall>i. 0 \<le> draws i \<and> draws i < 1"
  shows "PartialObservabilityWrapper_observation self draws obs = obs
    \<and> (env_step (env self) action = Inr (t, e')
         \<longrightarrow> PartialObservabilityWrapper_step env_step draws self action
               = Inr (t, self\<lparr>env := e'\<rparr>))"
proof -
  have id: "PartialObservabilityWrapper_observation self draws xs = xs" for xs
    using assms by (simp add: PartialObservabilityWrapper_observation_def map_nth)
  show ?thesis
    by (simp add: id PartialObservabilityWrapper_step_def)
qed

theorem partial_observability_ratio_one_witness:
  "observable_ratio \<lparr>env = ([] :: real list list), observable_ratio = 1\<rparr> = 1
   \<and> (\<forall>i :: nat. (0 :: real) \<le> 1 / 2 \<and> (1 / 2 :: real) < 1)
   \<and> PartialObservabilityWrapper_observation
         \<lparr>env = ([] :: real list list), observable_ratio = 1\<rparr> (\<lambda>i. 1 / 2) [3, - 4, 0, 5]
       = [3, - 4, 0, 5]
   \<and> PartialObservabilityWrapper_step (scripted_step probe_transition) (\<lambda>i. 1 / 2)
         \<lparr>env = [], observable_ratio = 1\<rparr> [5]
       = Inr (probe_transition [5], \<lparr>env = [[5]], observable_ratio = 1\<rparr>)"
proof -
  let ?w = "\<lparr>env = ([] :: real list list), observable_ratio = 1\<rparr>"
  have h1: "observable_ratio ?w = 1" by simp
  have h2: "\<forall>i :: nat. (0 :: real) \<le> 1 / 2 \<and> (1 / 2 :: real) < 1" by simp
  have h3: "scripted_step probe_transition (env ?w) [5] = Inr (probe_transition [5], [[5]])"
    by (simp add: scripted_step_def)
  from partial_observability_ratio_one [of ?w "\<lambda>i. 1 / 2" "[3, - 4, 0, 5]" "scripted_step probe_transition" "[5]"
      "probe_transition [5]" "[[5]]", OF h1 h2] h3 h1 h2
  show ?thesis by simp
qed

section \<open>Nonlinear dynamics\<close>

text \<open>
  Claim C9.  Every step of the Nonlinear-Dynamics stage passes some action to the
  inner step and, when that returns, has raised the step counter by exactly 1;
  \<^verbatim>\<open>reset\<close>, which the stage inherits from the base class, leaves the counter as it
  is; and as long as the counter, incremented for the current step, does not exceed
  \<open>dynamic_change_threshold\<close>, the action passed to the inner step is the action
  given.
\<close>

theorem nonlinear_dynamics_step_count:
  "(\<exists>a. NonLinearDynamicsWrapper_step env_step coin factor self action
          = (case env_step (env self) a of
               Inl err \<Rightarrow> Inl err
             | Inr (t, e') \<Rightarrow>
                 Inr (t, self\<lparr>env := e', step_count := step_count self + 1\<rparr>)))
   \<and> (Wrapper_reset env_reset self1 = Inr (oi, self1')
      \<longrightarrow> step_count self1' = step_count self1)
   \<and> (step_count self2 + 1 \<le> dynamic_change_threshold self2
      \<longrightarrow> NonLinearDynamicsWrapper_step env_step2 coin2 factor2 self2 action2
            = (case env_step2 (env self2) action2 of
                 Inl err \<Rightarrow> Inl err
               | Inr (t2, e2) \<Rightarrow>
                   Inr (t2, self2\<lparr>env := e2, step_count := step_count self2 + 1\<rparr>)))"
proof (intro conjI)
  let ?a = "if dynamic_change_threshold self < step_count self + 1
            then (if 0.5 < coin then map (\<lambda>x. x * factor) action
                  else map (\<lambda>x. x / factor) action)
            else action"
  have "NonLinearDynamicsWrapper_step env_step coin factor self action
          = (case env_step (env self) ?a of
               Inl err \<Rightarrow> Inl err
             | Inr (t, e') \<Rightarrow>
                 Inr (t, self\<lparr>env := e', step_count := step_count self + 1\<rparr>))"
    by (simp add: NonLinearDynamicsWrapper_step_def Let_def split: sum.splits)
  then show "\<exists>a. NonLinearDynamicsWrapper_step env_step coin factor self action
          = (case env_step (env self) a of
               Inl err \<Rightarrow> Inl err
             | Inr (t, e') \<Rightarrow>
                 Inr (t, self\<lparr>env := e', step_count := step_count self + 1\<rparr>))"
    by (rule exI)
next
  show "Wrapper_reset env_reset self1 = Inr (oi, self1')
      \<longrightarrow> step_count self1' = step_count self1"
    by (auto simp add: Wrapper_reset_def split: sum.splits)
next
  show "step_count self2 + 1 \<le> dynamic_change_threshold self2
      \<longrightarrow> NonLinearDynamicsWrapper_step env_step2 coin2 factor2 self2 action2
            = (case env_step2 (env self2) action2 of
                 Inl err \<Rightarrow> Inl err
               | Inr (t2, e2) \<Rightarrow>
                   Inr (t2, self2\<lparr>env := e2, step_count := step_count self2 + 1\<rparr>))"
    by (simp add: NonLinearDynamicsWrapper_step_def Let_def split: sum.splits)
qed

theorem nonlinear_dynamics_step_count_witness:
  "Wrapper_reset (scripted_reset ([], Map.empty))
       \<lparr>env = [[9]], dynamic_change_threshold = 100, step_count = 99\<rparr>
     = Inr (([], Map.empty), \<lparr>env = [[9]], dynamic_change_threshold = 100, step_count = 99\<rparr>)
   \<and> step_count \<lparr>env = [[9 :: real]], dynamic_change_threshold = 100, step_count = 99\<rparr> + 1
       \<le> dynamic_change_threshold
            \<lparr>env = [[9 :: real]], dynamic_change_threshold = 100, step_count = 99\<rparr>
   \<and> NonLinearDynamicsWrapper_step (scripted_step probe_transition) (3 / 4) (3 / 2)
         \<lparr>env = [[9]], dynamic_change_threshold = 100, step_count = 99\<rparr> [4, 6]
       = Inr (probe_transition [4, 6],
              \<lparr>env = [[9], [4, 6]], dynamic_change_threshold = 100, step_count = 100\<rparr>)
   \<and> NonLinearDynamicsWrapper_step (scripted_step probe_transition) (3 / 4) (3 / 2)
         \<lparr>env = [[9], [4, 6]], dynamic_change_threshold = 100, step_count = 100\<rparr> [4, 6]
       = Inr (probe_transition [6, 9],
              \<lparr>env = [[9], [4, 6], [6, 9]], dynamic_change_threshold = 100, step_count = 101\<rparr>)"
proof -
  let ?w = "\<lparr>env = [[9 :: real]], dynamic_change_threshold = 100, step_count = 99\<rparr>"
  have h1: "Wrapper_reset (scripted_reset ([], Map.empty)) ?w = Inr (([], Map.empty), ?w)"
    by (simp add: Wrapper_reset_def scripted_reset_def)
  have h2: "step_count ?w + 1 \<le> dynamic_change_threshold ?w" by simp
  from nonlinear_dynamics_step_count [of "scripted_step probe_transition" "3 / 4" "3 / 2" ?w
      "[4, 6]" "scripted_reset ([], Map.empty)" ?w "([], Map.empty)" ?w ?w
      "scripted_step probe_transition" "3 / 4" "3 / 2" "[4, 6]"] h2
  have s1: "NonLinearDynamicsWrapper_step (scripted_step probe_transition) (3 / 4) (3 / 2) ?w [4, 6]
       = Inr (probe_transition [4, 6],
              \<lparr>env = [[9], [4, 6]], dynamic_change_threshold = 100, step_count = 100\<rparr>)"
    by (simp add: scripted_step_def)
  have s2: "NonLinearDynamicsWrapper_step (scripted_step probe_transition) (3 / 4) (3 / 2)
         \<lparr>env = [[9], [4, 6]], dynamic_change_threshold = 100, step_count = 100\<rparr> [4, 6]
       = Inr (probe_transition [6, 9],
              \<lparr>env = [[9], [4, 6], [6, 9]], dynamic_change_threshold = 100, step_count = 101\<rparr>)"
    by (simp add: NonLinearDynamicsWrapper_step_def scripted_step_def Let_def)
  from h1 h2 s1 s2 show ?thesis by simp
qed

end
